theory Spec2Isabelle
  imports Main "HOL-Library.AList"
begin

section \<open>The vector store service of the document search server\<close>

text \<open>
  This theory embeds \<^verbatim>\<open>server/services/vector_db_service.py\<close>: the class
  \<^verbatim>\<open>VectorDBService\<close>, which chunks a text, hands the chunks to a FAISS vector
  store, keeps the stores in an in-memory dictionary and persists them in one directory
  per document.

  The service object is mutable and works on the file system, so every method is a
  function from the state before the call to its result and the state after it. A method
  that may raise returns a sum, with \<open>Inl\<close> the exception; the state is returned on
  both sides, because the Python keeps whatever it had mutated when the exception left.

  The text splitter, the embedding client, the FAISS store and the file system calls are
  third-party code. They are parameters of the model (the record \<open>library\<close>), and
  every theorem holds for each of them unless it says what it assumes.
\<close>

subsection \<open>Data\<close>

text \<open>Values of the metadata dictionaries (\<^verbatim>\<open>Dict[str, Any]\<close>): strings and integers.\<close>

datatype meta_value = MStr string | MInt int

text \<open>
  A Python dictionary whose insertion order is kept: an association list, written by
  \<^const>\<open>AList.update\<close> (replace in place, else append) and read by \<^const>\<open>map_of\<close>.
\<close>

type_synonym meta_dict = "(string \<times> meta_value) list"

text \<open>\<^verbatim>\<open>langchain.schema.Document\<close>.\<close>

record document =
  page_content :: string
  metadata :: meta_dict

text \<open>One entry of the list that \<^verbatim>\<open>search\<close> returns.\<close>

record 'score search_result =
  result_text :: string
  result_metadata :: meta_dict
  score :: 'score

text \<open>The dictionary that \<^verbatim>\<open>get_store_info\<close> returns.\<close>

record store_info =
  file_name :: string
  total_chunks :: nat
  embedding_dimension :: nat

datatype exn = Exception string

text \<open>
  The third-party calls of the service. \<open>'store\<close> is a FAISS vector store object,
  \<open>'blob\<close> the content of a directory on disk, \<open>'score\<close> a distance.
  \<^item> \<open>split_text\<close>: \<^verbatim>\<open>self.text_splitter.split_text\<close>;
  \<^item> \<open>from_documents\<close>: \<^verbatim>\<open>FAISS.from_documents(documents, self.embeddings)\<close>,
    which calls the embedding API and may raise;
  \<^item> \<open>save_local\<close>: what \<^verbatim>\<open>vector_store.save_local(store_path)\<close> leaves in the
    directory, or the exception it raises;
  \<^item> \<open>load_local\<close>: what \<^verbatim>\<open>FAISS.load_local\<close> makes of the content of a directory:
    a store, or an exception;
  \<^item> \<open>similarity_search_with_score\<close>: the method of that name, which embeds the
    query and may raise;
  \<^item> \<open>ntotal\<close>, \<open>dim\<close>: \<^verbatim>\<open>vector_store.index.ntotal\<close> and \<^verbatim>\<open>vector_store.index.d\<close>;
  \<^item> \<open>rmtree\<close>: \<^verbatim>\<open>shutil.rmtree\<close> on a path and a disk: the exception it raises, if
    any, and the directories that exist afterwards. It deletes the content of a tree
    before the tree, so it may have removed a part or all of it when it raises, and what
    it removes takes every directory beneath with it.
\<close>

record ('store, 'blob, 'score) library =
  split_text :: "string \<Rightarrow> string list"
  from_documents :: "document list \<Rightarrow> exn + 'store"
  save_local :: "string \<Rightarrow> 'store \<Rightarrow> exn + 'blob"
  load_local :: "'blob \<Rightarrow> exn + 'store"
  similarity_search_with_score :: "'store \<Rightarrow> string \<Rightarrow> int \<Rightarrow> exn + (document \<times> 'score) list"
  ntotal :: "'store \<Rightarrow> nat"
  dim :: "'store \<Rightarrow> nat"
  rmtree :: "string \<Rightarrow> (string \<rightharpoonup> 'blob) \<Rightarrow> exn option \<times> (string \<rightharpoonup> 'blob)"

text \<open>
  The state: the two attributes of the service that the methods use, and the directories
  that exist on disk, by path. A path is in the domain of \<open>disk\<close> exactly when
  \<^verbatim>\<open>os.path.exists\<close> holds of it. Paths are compared as strings: two spellings of one
  directory are two keys. The example states below list only the paths that their calls
  form.
\<close>

record ('store, 'blob) state =
  vector_store_dir :: string
  vector_stores :: "string \<rightharpoonup> 'store"
  disk :: "string \<rightharpoonup> 'blob"

subsection \<open>Paths\<close>

text \<open>\<^verbatim>\<open>str.split(sep)\<close> for a separator of one character.\<close>

fun split_on :: "char \<Rightarrow> string \<Rightarrow> string list" where
  "split_on c [] = [[]]"
| "split_on c (x # xs) =
     (if x = c then [] # split_on c xs
      else (case split_on c xs of [] \<Rightarrow> [[x]] | w # ws \<Rightarrow> (x # w) # ws))"

text \<open>
  \<^verbatim>\<open>PurePosixPath(s).name\<close>: the last component of the path, where empty components
  and \<^verbatim>\<open>.\<close> components do not count; the empty string when there is none.
\<close>

definition path_name :: "string \<Rightarrow> string" where
  "path_name s =
     (case filter (\<lambda>p. p \<noteq> [] \<and> p \<noteq> ''.'') (split_on CHR ''/'' s) of
        [] \<Rightarrow> []
      | p # ps \<Rightarrow> last (p # ps))"

text \<open>\<^verbatim>\<open>str.rfind(c)\<close>: the last index of the character, or \<open>-1\<close>.\<close>

definition rfind :: "string \<Rightarrow> char \<Rightarrow> int" where
  "rfind s c =
     (if c \<in> set s then int (length s) - 1 - int (length (takeWhile (\<lambda>x. x \<noteq> c) (rev s)))
      else - 1)"

text \<open>
  \<^verbatim>\<open>Path(file_name).stem\<close>, as \<^verbatim>\<open>pathlib\<close> defines it up to CPython 3.12:
  \<^verbatim>\<open>i = name.rfind('.'); name[:i] if 0 < i < len(name) - 1 else name\<close>.
\<close>

definition stem :: "string \<Rightarrow> string" where
  "stem s =
     (let name = path_name s; i = rfind name CHR ''.''
      in if 0 < i \<and> i < int (length name) - 1 then take (nat i) name else name)"

text \<open>\<^verbatim>\<open>os.path.join(a, b)\<close> of \<^verbatim>\<open>posixpath\<close>.\<close>

definition os_path_join :: "string \<Rightarrow> string \<Rightarrow> string" where
  "os_path_join a b =
     (if b \<noteq> [] \<and> hd b = CHR ''/'' then b
      else if a = [] \<or> last a = CHR ''/'' then a @ b
      else a @ ''/'' @ b)"

text \<open>
  The two lines that \<^verbatim>\<open>save_vector_store\<close>, \<^verbatim>\<open>load_vector_store\<close> and
  \<^verbatim>\<open>delete_vector_store\<close> share:
  \<^verbatim>\<open>safe_name = Path(file_name).stem\<close>,
  \<^verbatim>\<open>store_path = os.path.join(self.vector_store_dir, safe_name)\<close>.
\<close>

definition store_path :: "('store, 'blob) state \<Rightarrow> string \<Rightarrow> string" where
  "store_path st fname = os_path_join (vector_store_dir st) (stem fname)"

subsection \<open>The methods\<close>

text \<open>
  The dictionary of one chunk (lines 90 to 96). \<^verbatim>\<open>if metadata:\<close> skips \<^verbatim>\<open>None\<close>
  and the empty dictionary; updating with the empty dictionary changes nothing, which is
  what the fold does on \<open>[]\<close>.
\<close>

definition doc_metadata :: "string \<Rightarrow> nat \<Rightarrow> nat \<Rightarrow> meta_dict option \<Rightarrow> meta_dict" where
  "doc_metadata fname idx n md =
     (let base = [(''source'', MStr fname),
                  (''chunk_index'', MInt (int idx)),
                  (''total_chunks'', MInt (int n))]
      in case md of
           None \<Rightarrow> base
         | Some m \<Rightarrow> fold (\<lambda>(k, v). AList.update k v) m base)"

text \<open>The loop over \<^verbatim>\<open>enumerate(chunks)\<close> (lines 88 to 101).\<close>

definition build_documents :: "string \<Rightarrow> string list \<Rightarrow> meta_dict option \<Rightarrow> document list" where
  "build_documents fname chunks md =
     map (\<lambda>(idx, chunk).
            \<lparr>page_content = chunk, metadata = doc_metadata fname idx (length chunks) md\<rparr>)
         (enumerate 0 chunks)"

text \<open>
  \<^verbatim>\<open>save_vector_store\<close> (lines 131 to 138). When \<^verbatim>\<open>save_local\<close> raises, the
  directory is taken to be as it was.
\<close>

definition save_vector_store ::
  "('store, 'blob, 'score) library \<Rightarrow> ('store, 'blob) state \<Rightarrow> string \<Rightarrow> 'store
   \<Rightarrow> (exn + string) \<times> ('store, 'blob) state" where
  "save_vector_store lib st fname vs =
     (let p = store_path st fname
      in case save_local lib p vs of
           Inl e \<Rightarrow> (Inl e, st)
         | Inr blob \<Rightarrow> (Inr p, st\<lparr>disk := (disk st)(p \<mapsto> blob)\<rparr>))"

text \<open>
  \<^verbatim>\<open>create_vector_store_from_text\<close> (lines 84 to 117). The store is put in the
  dictionary (line 112) before it is saved (line 115), so it stays there when the saving
  raises.
\<close>

definition create_vector_store_from_text ::
  "('store, 'blob, 'score) library \<Rightarrow> ('store, 'blob) state \<Rightarrow> string \<Rightarrow> string
   \<Rightarrow> meta_dict option \<Rightarrow> (exn + 'store) \<times> ('store, 'blob) state" where
  "create_vector_store_from_text lib st txt fname md =
     (let chunks = split_text lib txt;
          documents = build_documents fname chunks md
      in case from_documents lib documents of
           Inl e \<Rightarrow> (Inl e, st)
         | Inr vs \<Rightarrow>
             (let st1 = st\<lparr>vector_stores := (vector_stores st)(fname \<mapsto> vs)\<rparr>
              in case save_vector_store lib st1 fname vs of
                   (Inl e, st2) \<Rightarrow> (Inl e, st2)
                 | (Inr p, st2) \<Rightarrow> (Inr vs, st2)))"

text \<open>
  \<^verbatim>\<open>load_vector_store\<close> (lines 151 to 179): the dictionary first, then the directory;
  \<^verbatim>\<open>except Exception\<close> turns a failed \<^verbatim>\<open>load_local\<close> into \<^verbatim>\<open>None\<close>.
\<close>

definition load_vector_store ::
  "('store, 'blob, 'score) library \<Rightarrow> ('store, 'blob) state \<Rightarrow> string
   \<Rightarrow> 'store option \<times> ('store, 'blob) state" where
  "load_vector_store lib st fname =
     (case vector_stores st fname of
        Some vs \<Rightarrow> (Some vs, st)
      | None \<Rightarrow>
          (case disk st (store_path st fname) of
             None \<Rightarrow> (None, st)
           | Some blob \<Rightarrow>
               (case load_local lib blob of
                  Inr vs \<Rightarrow> (Some vs, st\<lparr>vector_stores := (vector_stores st)(fname \<mapsto> vs)\<rparr>)
                | Inl e \<Rightarrow> (None, st))))"

text \<open>
  \<^verbatim>\<open>search\<close> (lines 199 to 224). \<^verbatim>\<open>top_k\<close> goes to the library as it comes; an
  exception of \<^verbatim>\<open>similarity_search_with_score\<close> is not caught.
\<close>

definition format_result :: "document \<times> 'score \<Rightarrow> 'score search_result" where
  "format_result r =
     (case r of (doc, sc) \<Rightarrow>
        \<lparr>result_text = page_content doc, result_metadata = metadata doc, score = sc\<rparr>)"

definition search ::
  "('store, 'blob, 'score) library \<Rightarrow> ('store, 'blob) state \<Rightarrow> string \<Rightarrow> string \<Rightarrow> int
   \<Rightarrow> (exn + 'score search_result list) \<times> ('store, 'blob) state" where
  "search lib st query fname top_k =
     (case load_vector_store lib st fname of
        (None, st1) \<Rightarrow> (Inr [], st1)
      | (Some vs, st1) \<Rightarrow>
          (case similarity_search_with_score lib vs query top_k of
             Inl e \<Rightarrow> (Inl e, st1)
           | Inr results \<Rightarrow> (Inr (map format_result results), st1)))"



text \<open>\<^verbatim>\<open>get_store_info\<close> (lines 289 to 301).\<close>

definition get_store_info ::
  "('store, 'blob, 'score) library \<Rightarrow> ('store, 'blob) state \<Rightarrow> string
   \<Rightarrow> store_info option \<times> ('store, 'blob) state" where
  "get_store_info lib st fname =
     (case load_vector_store lib st fname of
        (None, st1) \<Rightarrow> (None, st1)
      | (Some vs, st1) \<Rightarrow>
          (Some \<lparr>file_name = fname, total_chunks = ntotal lib vs,
                 embedding_dimension = dim lib vs\<rparr>, st1))"

subsection \<open>A stand-in for the libraries\<close>

text \<open>
  To run the model on concrete inputs the libraries need values. In this stand-in a store
  is the list of its documents, the splitter cuts a text at every line feed, a directory
  holds the store that was saved there (\<open>None\<close> is a directory whose files do not
  load), and a search returns the first \<open>k\<close> documents at distance \<open>0\<close>.
  \<^verbatim>\<open>rmtree\<close> removes the directory at its path, with three exceptions. On the paths of
  a given list it raises and removes nothing (no permission). On a path whose last
  component is \<^verbatim>\<open>..\<close>, the parent of the directory of the service, it removes every
  directory of the disk, all of which lie beneath that parent, and raises when it comes
  to remove the path itself, which no longer leads anywhere. On the directory of the
  service itself, spelt with a final \<^verbatim>\<open>/\<close>, it removes every directory and succeeds.
\<close>

definition stub_library :: "string list \<Rightarrow> (document list, document list option, nat) library" where
  "stub_library locked =
     \<lparr>split_text = (\<lambda>t. filter (\<lambda>l. l \<noteq> []) (split_on (CHR 0x0A) t)),
      from_documents = Inr,
      save_local = (\<lambda>p vs. Inr (Some vs)),
      load_local = (\<lambda>b. case b of None \<Rightarrow> Inl (Exception ''unreadable'') | Some vs \<Rightarrow> Inr vs),
      similarity_search_with_score = (\<lambda>vs q k. Inr (map (\<lambda>d. (d, 0)) (take (nat k) vs))),
      ntotal = length,
      dim = (\<lambda>vs. 1),
      rmtree = (\<lambda>p d.
         if p \<in> set locked then (Some (Exception ''permission denied''), d)
         else if path_name p = ''..'' then (Some (Exception ''no such directory''), Map.empty)
         else if p \<noteq> [] \<and> last p = CHR ''/'' then (None, Map.empty)
         else (None, d(p := None)))\<rparr>"

text \<open>A service just constructed, on a disk with nothing under its directory.\<close>

definition fresh_service :: "(document list, document list option) state" where
  "fresh_service = \<lparr>vector_store_dir = ''uploads/vector_stores'',
                    vector_stores = Map.empty, disk = Map.empty\<rparr>"

text \<open>The same disk with a directory for \<^verbatim>\<open>a.pdf\<close> whose files do not load.\<close>

definition damaged_service :: "(document list, document list option) state" where
  "damaged_service = fresh_service\<lparr>disk := [''uploads/vector_stores/a'' \<mapsto> None]\<rparr>"



text \<open>A text of two lines, the documents the service builds from it for \<^verbatim>\<open>a.pdf\<close>
  without caller metadata, and the service after that ingestion.\<close>

definition two_lines :: string where
  "two_lines = ''ab'' @ [CHR 0x0A] @ ''cd''"

definition two_lines_documents :: "document list" where
  "two_lines_documents =
     [\<lparr>page_content = ''ab'',
       metadata = [(''source'', MStr ''a.pdf''), (''chunk_index'', MInt 0),
                   (''total_chunks'', MInt 2)]\<rparr>,
      \<lparr>page_content = ''cd'',
       metadata = [(''source'', MStr ''a.pdf''), (''chunk_index'', MInt 1),
                   (''total_chunks'', MInt 2)]\<rparr>]"

definition ingested_service :: "(document list, document list option) state" where
  "ingested_service =
     fresh_service\<lparr>vector_stores := [''a.pdf'' \<mapsto> two_lines_documents],
                   disk := [''uploads/vector_stores/a'' \<mapsto> Some two_lines_documents]\<rparr>"

text \<open>The documents of the one-line text \<^verbatim>\<open>xy\<close>, ingested under a given file name.\<close>

definition xy_document :: "string \<Rightarrow> document list" where
  "xy_document fname =
     [\<lparr>page_content = ''xy'',
       metadata = [(''source'', MStr fname), (''chunk_index'', MInt 0),
                   (''total_chunks'', MInt 1)]\<rparr>]"



section \<open>Properties\<close>

subsection \<open>Paths\<close>

lemma stem_a_pdf: "stem ''a.pdf'' = ''a''"
  by (simp add: stem_def path_name_def rfind_def)

lemma stem_a_PDF: "stem ''a.PDF'' = ''a''"
  by (simp add: stem_def path_name_def rfind_def)

lemma store_path_a_pdf:
  "vector_store_dir st = ''uploads/vector_stores''
   \<Longrightarrow> store_path st ''a.pdf'' = ''uploads/vector_stores/a''"
  by (simp add: store_path_def os_path_join_def stem_a_pdf)

lemma store_path_a_PDF:
  "vector_store_dir st = ''uploads/vector_stores''
   \<Longrightarrow> store_path st ''a.PDF'' = ''uploads/vector_stores/a''"
  by (simp add: store_path_def os_path_join_def stem_a_PDF)

text \<open>No piece of a split contains the separator.\<close>

lemma split_on_no_sep: "w \<in> set (split_on c s) \<Longrightarrow> c \<notin> set w"
  by (induction s arbitrary: w) (auto split: if_splits list.splits)

lemma path_name_no_slash: "CHR ''/'' \<notin> set (path_name s)"
proof (cases "filter (\<lambda>p. p \<noteq> [] \<and> p \<noteq> ''.'') (split_on CHR ''/'' s)")
  case Nil
  then show ?thesis by (simp add: path_name_def)
next
  case (Cons p ps)
  then have "path_name s = last (p # ps)" by (simp add: path_name_def)
  moreover have "last (p # ps) \<in> set (p # ps)" by (rule last_in_set) simp
  moreover have "set (p # ps) \<subseteq> set (split_on CHR ''/'' s)"
    using Cons [symmetric] by simp
  ultimately show ?thesis using split_on_no_sep by fastforce
qed

lemma stem_no_slash: "CHR ''/'' \<notin> set (stem s)"
  using path_name_no_slash [of s] by (auto simp: stem_def Let_def dest: in_set_takeD)

subsection \<open>Searching without an index\<close>




subsection \<open>Loading a directory that does not load\<close>

text \<open>
  C2 says that a directory that exists and cannot be read is reported as a load failure,
  distinct from the answer for an absent store. The method catches every exception of
  \<^verbatim>\<open>FAISS.load_local\<close> and returns \<^verbatim>\<open>None\<close> (line 179), which is also its answer at
  line 161 when the directory does not exist: the two results are equal.
\<close>

theorem load_damaged_counterexample:
  "disk damaged_service (store_path damaged_service ''a.pdf'') \<noteq> None
   \<and> disk fresh_service (store_path fresh_service ''a.pdf'') = None
   \<and> fst (load_vector_store (stub_library []) damaged_service ''a.pdf'')
       = fst (load_vector_store (stub_library []) fresh_service ''a.pdf'')"
  by (simp add: load_vector_store_def damaged_service_def fresh_service_def
      store_path_a_pdf stub_library_def)

text \<open>
  C2, as the code has it: for a file that is not in the dictionary and whose directory
  exists but fails to load, \<^verbatim>\<open>load_vector_store\<close> returns \<^verbatim>\<open>None\<close> and changes
  nothing, which is exactly what it does on the same state without the directory.
\<close>

theorem load_damaged_is_none:
  "vector_stores st fname = None \<Longrightarrow> disk st (store_path st fname) = Some blob
   \<Longrightarrow> load_local lib blob = Inl e
   \<Longrightarrow> load_vector_store lib st fname = (None, st)
       \<and> load_vector_store lib (st\<lparr>disk := (disk st)(store_path st fname := None)\<rparr>) fname
           = (None, st\<lparr>disk := (disk st)(store_path st fname := None)\<rparr>)"
  by (simp add: load_vector_store_def store_path_def)

theorem load_damaged_is_none_witness:
  "vector_stores damaged_service ''a.pdf'' = None
   \<and> disk damaged_service (store_path damaged_service ''a.pdf'') = Some None
   \<and> load_local (stub_library []) None = Inl (Exception ''unreadable'')
   \<and> load_vector_store (stub_library []) damaged_service ''a.pdf'' = (None, damaged_service)"
proof -
  have d: "vector_store_dir damaged_service = ''uploads/vector_stores''"
    by (simp add: damaged_service_def fresh_service_def)
  have h1: "vector_stores damaged_service ''a.pdf'' = None"
    by (simp add: damaged_service_def fresh_service_def)
  have h2: "disk damaged_service (store_path damaged_service ''a.pdf'') = Some None"
    by (simp add: store_path_a_pdf [OF d]) (simp add: damaged_service_def)
  have h3: "load_local (stub_library []) None = Inl (Exception ''unreadable'')"
    by (simp add: stub_library_def)
  show ?thesis using h1 h2 h3 load_damaged_is_none [OF h1 h2 h3] by simp
qed

subsection \<open>Deleting\<close>

















subsection \<open>Ingesting\<close>

text \<open>What a successful \<^verbatim>\<open>create_vector_store_from_text\<close> has done.\<close>

lemma create_success:
  assumes "create_vector_store_from_text lib st txt fname md = (Inr vs, st')"
  shows "from_documents lib (build_documents fname (split_text lib txt) md) = Inr vs
     \<and> (\<exists>b. save_local lib (store_path st fname) vs = Inr b
           \<and> st' = st\<lparr>vector_stores := (vector_stores st)(fname \<mapsto> vs),
                       disk := (disk st)(store_path st fname \<mapsto> b)\<rparr>)"
  using assms
  by (auto simp: create_vector_store_from_text_def save_vector_store_def store_path_def Let_def
      split: sum.splits prod.splits)

lemma fold_update_other:
  "k \<notin> fst ` set m \<Longrightarrow> map_of (fold (\<lambda>(k, v). AList.update k v) m base) k = map_of base k"
  by (induction m arbitrary: base) (auto simp: update_conv')

lemma doc_metadata_chunk_index:
  assumes "\<forall>m. md = Some m \<longrightarrow> ''chunk_index'' \<notin> fst ` set m"
  shows "map_of (doc_metadata fname idx n md) ''chunk_index'' = Some (MInt (int idx))"
proof (cases md)
  case None
  then show ?thesis by (simp add: doc_metadata_def)
next
  case (Some m)
  with assms have "''chunk_index'' \<notin> fst ` set m" by simp
  then show ?thesis using Some by (simp add: doc_metadata_def fold_update_other)
qed

lemma build_documents_chunk_index:
  assumes "\<forall>m. md = Some m \<longrightarrow> ''chunk_index'' \<notin> fst ` set m"
  shows "map (\<lambda>d. map_of (metadata d) ''chunk_index'') (build_documents fname chunks md)
     = map (\<lambda>i. Some (MInt (int i))) [0..<length chunks]"
proof -
  have "map (\<lambda>d. map_of (metadata d) ''chunk_index'') (build_documents fname chunks md)
      = map (\<lambda>p. Some (MInt (int (fst p)))) (enumerate 0 chunks)"
    by (simp add: build_documents_def doc_metadata_chunk_index [OF assms] case_prod_beta)
  also have "\<dots> = map (\<lambda>i. Some (MInt (int i))) (map fst (enumerate 0 chunks))"
    by (simp only: map_map comp_def)
  also have "map fst (enumerate 0 chunks) = [0..<length chunks]"
    by simp
  finally show ?thesis .
qed

lemma length_build_documents: "length (build_documents fname chunks md) = length chunks"
  by (simp add: build_documents_def)

lemma map_page_content_build_documents: "map page_content (build_documents fname chunks md) = chunks"
proof -
  have "map page_content (build_documents fname chunks md) = map snd (enumerate 0 chunks)"
    by (simp add: build_documents_def case_prod_beta comp_def)
  then show ?thesis by simp
qed

text \<open>The stand-in library on the example texts.\<close>

lemma split_text_two_lines: "split_text (stub_library locked) two_lines = [''ab'', ''cd'']"
  by (simp add: stub_library_def two_lines_def)

lemma create_stub:
  "create_vector_store_from_text (stub_library locked) st txt fname md =
     (Inr (build_documents fname (split_text (stub_library locked) txt) md),
      st\<lparr>vector_stores := (vector_stores st)
             (fname \<mapsto> build_documents fname (split_text (stub_library locked) txt) md),
         disk := (disk st)
             (store_path st fname \<mapsto>
                Some (build_documents fname (split_text (stub_library locked) txt) md))\<rparr>)"
  by (simp add: create_vector_store_from_text_def save_vector_store_def store_path_def Let_def
      stub_library_def)

lemma build_two_lines:
  "build_documents ''a.pdf'' [''ab'', ''cd''] None = two_lines_documents"
  by (simp add: build_documents_def doc_metadata_def two_lines_documents_def)

lemma create_two_lines:
  "create_vector_store_from_text (stub_library []) fresh_service two_lines ''a.pdf'' None
     = (Inr two_lines_documents, ingested_service)"
proof -
  have d: "vector_store_dir fresh_service = ''uploads/vector_stores''"
    by (simp add: fresh_service_def)
  show ?thesis
    by (simp add: create_stub split_text_two_lines build_two_lines store_path_a_pdf [OF d]
        ingested_service_def) (simp add: fresh_service_def)
qed

lemma split_text_xy: "split_text (stub_library locked) ''xy'' = [''xy'']"
  by (simp add: stub_library_def)

lemma build_xy: "build_documents fname [''xy''] None = xy_document fname"
  by (simp add: build_documents_def doc_metadata_def xy_document_def)

lemma ingested_dir: "vector_store_dir ingested_service = ''uploads/vector_stores''"
  by (simp add: ingested_service_def fresh_service_def)

lemma create_xy_PDF:
  "create_vector_store_from_text (stub_library []) ingested_service ''xy'' ''a.PDF'' None
     = (Inr (xy_document ''a.PDF''),
        fresh_service\<lparr>vector_stores := [''a.pdf'' \<mapsto> two_lines_documents,
                                         ''a.PDF'' \<mapsto> xy_document ''a.PDF''],
                      disk := [''uploads/vector_stores/a'' \<mapsto> Some (xy_document ''a.PDF'')]\<rparr>)"
  by (simp add: create_stub split_text_xy build_xy store_path_a_PDF [OF ingested_dir])
     (simp add: ingested_service_def fresh_service_def)

lemma create_xy_pdf:
  "create_vector_store_from_text (stub_library []) ingested_service ''xy'' ''a.pdf'' None
     = (Inr (xy_document ''a.pdf''),
        fresh_service\<lparr>vector_stores := [''a.pdf'' \<mapsto> xy_document ''a.pdf''],
                      disk := [''uploads/vector_stores/a'' \<mapsto> Some (xy_document ''a.pdf'')]\<rparr>)"
  by (simp add: create_stub split_text_xy build_xy store_path_a_pdf [OF ingested_dir])
     (simp add: ingested_service_def fresh_service_def)

text \<open>
  C3: let \<^verbatim>\<open>create_vector_store_from_text\<close> return a store for a file name, and let the
  library read back from a directory the store it has saved there. After the dictionary
  is emptied, \<^verbatim>\<open>load_vector_store\<close> for that file name returns the store that was
  built, with its chunk texts and metadata, and caches it again; every search in the file
  gives the result it gave before the dictionary was emptied.
\<close>

theorem build_then_reload_roundtrip:
  assumes built: "create_vector_store_from_text lib st txt fname md = (Inr vs, st')"
    and faithful: "\<forall>p b. save_local lib p vs = Inr b \<longrightarrow> load_local lib b = Inr vs"
  shows "load_vector_store lib (st'\<lparr>vector_stores := Map.empty\<rparr>) fname
        = (Some vs, st'\<lparr>vector_stores := [fname \<mapsto> vs]\<rparr>)
     \<and> fst (search lib (st'\<lparr>vector_stores := Map.empty\<rparr>) query fname top_k)
        = fst (search lib st' query fname top_k)"
proof -
  from create_success [OF built] obtain b where
    saved: "save_local lib (store_path st fname) vs = Inr b" and
    st': "st' = st\<lparr>vector_stores := (vector_stores st)(fname \<mapsto> vs),
                   disk := (disk st)(store_path st fname \<mapsto> b)\<rparr>"
    by blast
  from faithful saved have loaded: "load_local lib b = Inr vs" by blast
  have reload: "load_vector_store lib (st'\<lparr>vector_stores := Map.empty\<rparr>) fname
        = (Some vs, st'\<lparr>vector_stores := [fname \<mapsto> vs]\<rparr>)"
    by (simp add: load_vector_store_def store_path_def st' loaded)
  have cached: "load_vector_store lib st' fname = (Some vs, st')"
    by (simp add: load_vector_store_def st')
  show ?thesis
    by (simp add: reload search_def cached split: sum.splits)
qed

theorem build_then_reload_roundtrip_witness:
  "create_vector_store_from_text (stub_library []) fresh_service two_lines ''a.pdf'' None
     = (Inr two_lines_documents, ingested_service)
   \<and> load_vector_store (stub_library []) (ingested_service\<lparr>vector_stores := Map.empty\<rparr>) ''a.pdf''
     = (Some two_lines_documents,
        ingested_service\<lparr>vector_stores := [''a.pdf'' \<mapsto> two_lines_documents]\<rparr>)
   \<and> fst (search (stub_library []) (ingested_service\<lparr>vector_stores := Map.empty\<rparr>)
          ''cd'' ''a.pdf'' 1)
     = fst (search (stub_library []) ingested_service ''cd'' ''a.pdf'' 1)"
proof -
  have f: "\<forall>p b. save_local (stub_library []) p two_lines_documents = Inr b
      \<longrightarrow> load_local (stub_library []) b = Inr two_lines_documents"
    by (auto simp: stub_library_def)
  show ?thesis
    using create_two_lines build_then_reload_roundtrip [OF create_two_lines f, of "''cd''" 1] by simp
qed

text \<open>
  C9 says that the ordinals of the stored chunks start at 0 and increase, for every
  ingested document. Line 96 updates the dictionary of each chunk with the metadata of
  the caller after \<^verbatim>\<open>chunk_index\<close> is set, so a caller whose metadata has that key
  replaces the ordinal of every chunk: here both chunks carry 7.
\<close>

theorem chunk_index_overridden_counterexample:
  "fst (create_vector_store_from_text (stub_library []) fresh_service two_lines ''a.pdf''
          (Some [(''chunk_index'', MInt 7)]))
     = Inr [\<lparr>page_content = ''ab'',
              metadata = [(''source'', MStr ''a.pdf''), (''chunk_index'', MInt 7),
                          (''total_chunks'', MInt 2)]\<rparr>,
             \<lparr>page_content = ''cd'',
              metadata = [(''source'', MStr ''a.pdf''), (''chunk_index'', MInt 7),
                          (''total_chunks'', MInt 2)]\<rparr>]"
  by (simp add: create_stub split_text_two_lines build_documents_def doc_metadata_def)

text \<open>
  C9, as the code has it: when the metadata of the caller has no key \<^verbatim>\<open>chunk_index\<close>,
  the documents handed to \<^verbatim>\<open>FAISS.from_documents\<close> are the chunks in order, and the
  ordinal of the chunk at position \<open>i\<close> is \<open>i\<close>, from 0 upwards. If the library
  keeps one vector for each document it is given, the index of the store has as many
  vectors as there are chunks, and \<^verbatim>\<open>get_store_info\<close> reports that number.
\<close>

theorem chunk_ordinals_and_index_size:
  assumes md_ok: "\<forall>m. md = Some m \<longrightarrow> ''chunk_index'' \<notin> fst ` set m"
    and lib_ok: "\<forall>ds s. from_documents lib ds = Inr s \<longrightarrow> ntotal lib s = length ds"
    and built: "create_vector_store_from_text lib st txt fname md = (Inr vs, st')"
  shows "from_documents lib (build_documents fname (split_text lib txt) md) = Inr vs
     \<and> map page_content (build_documents fname (split_text lib txt) md) = split_text lib txt
     \<and> map (\<lambda>d. map_of (metadata d) ''chunk_index'')
           (build_documents fname (split_text lib txt) md)
        = map (\<lambda>i. Some (MInt (int i))) [0..<length (split_text lib txt)]
     \<and> ntotal lib vs = length (split_text lib txt)
     \<and> fst (get_store_info lib st' fname)
        = Some \<lparr>file_name = fname, total_chunks = length (split_text lib txt),
                embedding_dimension = dim lib vs\<rparr>"
proof -
  let ?docs = "build_documents fname (split_text lib txt) md"
  from create_success [OF built] obtain b where
    fd: "from_documents lib ?docs = Inr vs" and
    st': "st' = st\<lparr>vector_stores := (vector_stores st)(fname \<mapsto> vs),
                   disk := (disk st)(store_path st fname \<mapsto> b)\<rparr>"
    by blast
  from lib_ok fd have n: "ntotal lib vs = length (split_text lib txt)"
    by (simp add: length_build_documents)
  have cached: "load_vector_store lib st' fname = (Some vs, st')"
    by (simp add: load_vector_store_def st')
  have info: "fst (get_store_info lib st' fname)
        = Some \<lparr>file_name = fname, total_chunks = length (split_text lib txt),
                embedding_dimension = dim lib vs\<rparr>"
    by (simp add: get_store_info_def cached n)
  from fd map_page_content_build_documents build_documents_chunk_index [OF md_ok] n info
  show ?thesis by blast
qed

theorem chunk_ordinals_and_index_size_witness:
  "''chunk_index'' \<notin> fst ` set [(''display_name'', MStr ''a.pdf'')]
   \<and> fst (create_vector_store_from_text (stub_library []) fresh_service two_lines ''a.pdf''
          (Some [(''display_name'', MStr ''a.pdf'')]))
     = Inr (build_documents ''a.pdf'' [''ab'', ''cd''] (Some [(''display_name'', MStr ''a.pdf'')]))
   \<and> map (\<lambda>d. map_of (metadata d) ''chunk_index'')
         (build_documents ''a.pdf'' [''ab'', ''cd''] (Some [(''display_name'', MStr ''a.pdf'')]))
     = [Some (MInt 0), Some (MInt 1)]
   \<and> fst (get_store_info (stub_library [])
          (snd (create_vector_store_from_text (stub_library []) fresh_service two_lines ''a.pdf''
                  (Some [(''display_name'', MStr ''a.pdf'')])))
          ''a.pdf'')
     = Some \<lparr>file_name = ''a.pdf'', total_chunks = 2, embedding_dimension = 1\<rparr>"
proof -
  let ?md = "Some [(''display_name'', MStr ''a.pdf'')]"
  have m: "\<forall>m. ?md = Some m \<longrightarrow> ''chunk_index'' \<notin> fst ` set m"
    by simp
  have l: "\<forall>ds s. from_documents (stub_library []) ds = Inr s
      \<longrightarrow> ntotal (stub_library []) s = length ds"
    by (simp add: stub_library_def)
  have b: "create_vector_store_from_text (stub_library []) fresh_service two_lines ''a.pdf'' ?md
      = (Inr (build_documents ''a.pdf'' [''ab'', ''cd''] ?md),
         snd (create_vector_store_from_text (stub_library []) fresh_service two_lines ''a.pdf''
                ?md))"
    by (simp add: create_stub split_text_two_lines)
  have dm: "dim (stub_library []) vs = 1" for vs
    by (simp add: stub_library_def)
  have u: "[0..<2] = [0, 1]" by (simp add: upt_rec)
  have fb: "fst (create_vector_store_from_text (stub_library []) fresh_service two_lines
      ''a.pdf'' ?md) = Inr (build_documents ''a.pdf'' [''ab'', ''cd''] ?md)"
    by (simp add: create_stub split_text_two_lines)
  show ?thesis
    using fb chunk_ordinals_and_index_size [OF m l b] by (simp add: split_text_two_lines dm u)
qed

text \<open>
  C6 says that a store is cached and persisted under the base name of the file without
  its extension, so that two ingestions with the same base name overwrite one record in
  the dictionary and on disk. Only the directory is named so (line 131); the dictionary
  is keyed by the file name as given (line 112). After \<^verbatim>\<open>a.pdf\<close> and \<^verbatim>\<open>a.PDF\<close>,
  which have the same stem, the dictionary holds two different stores.
\<close>

theorem same_stem_two_cache_entries_counterexample:
  "stem ''a.pdf'' = stem ''a.PDF''
   \<and> fst (create_vector_store_from_text (stub_library []) fresh_service two_lines ''a.pdf'' None)
       = Inr two_lines_documents
   \<and> fst (create_vector_store_from_text (stub_library [])
            (snd (create_vector_store_from_text (stub_library []) fresh_service two_lines
                    ''a.pdf'' None))
            ''xy'' ''a.PDF'' None)
       = Inr (xy_document ''a.PDF'')
   \<and> vector_stores
        (snd (create_vector_store_from_text (stub_library [])
            (snd (create_vector_store_from_text (stub_library []) fresh_service two_lines
                    ''a.pdf'' None))
            ''xy'' ''a.PDF'' None))
       = [''a.pdf'' \<mapsto> two_lines_documents, ''a.PDF'' \<mapsto> xy_document ''a.PDF'']
   \<and> two_lines_documents \<noteq> xy_document ''a.PDF''
   \<and> ''a.pdf'' \<noteq> ''a.PDF''"
  by (simp add: create_two_lines create_xy_PDF stem_a_pdf stem_a_PDF)
     (simp add: two_lines_documents_def xy_document_def)

text \<open>
  C6, as the code has it: the directory of a store is named by the stem of the file name,
  which has no \<^verbatim>\<open>/\<close>, and the dictionary is keyed by the file name itself. After two
  successful ingestions whose file names have the same stem, the directory is one and
  holds what the second ingestion saved, and the dictionary maps each of the two file
  names to its store: one entry when the names are equal, two otherwise.
\<close>

theorem ingest_twice_same_stem:
  assumes first: "create_vector_store_from_text lib st txt1 fname1 md1 = (Inr vs1, st1)"
    and second: "create_vector_store_from_text lib st1 txt2 fname2 md2 = (Inr vs2, st2)"
    and same: "stem fname1 = stem fname2"
  shows "vector_stores st2 = (vector_stores st)(fname1 \<mapsto> vs1, fname2 \<mapsto> vs2)
     \<and> (\<exists>b. save_local lib (store_path st fname2) vs2 = Inr b
            \<and> disk st2 = (disk st)(store_path st fname2 \<mapsto> b))
     \<and> store_path st fname1 = store_path st fname2
     \<and> CHR ''/'' \<notin> set (stem fname2)"
proof -
  from create_success [OF first] obtain b1 where
    st1: "st1 = st\<lparr>vector_stores := (vector_stores st)(fname1 \<mapsto> vs1),
                   disk := (disk st)(store_path st fname1 \<mapsto> b1)\<rparr>"
    by blast
  from create_success [OF second] obtain b2 where
    s2: "save_local lib (store_path st1 fname2) vs2 = Inr b2" and
    st2: "st2 = st1\<lparr>vector_stores := (vector_stores st1)(fname2 \<mapsto> vs2),
                   disk := (disk st1)(store_path st1 fname2 \<mapsto> b2)\<rparr>"
    by blast
  have p: "store_path st1 fname2 = store_path st fname2" "store_path st fname1 = store_path st fname2"
    by (simp_all add: store_path_def st1 same)
  have "vector_stores st2 = (vector_stores st)(fname1 \<mapsto> vs1, fname2 \<mapsto> vs2)"
    by (simp add: st2 st1)
  moreover have "disk st2 = (disk st)(store_path st fname2 \<mapsto> b2)"
    by (simp add: st2 p) (simp add: st1 p)
  moreover have "save_local lib (store_path st fname2) vs2 = Inr b2"
    using s2 by (simp add: p)
  ultimately show ?thesis
    using p(2) by (auto simp: stem_no_slash)
qed

theorem ingest_twice_same_stem_witness:
  "create_vector_store_from_text (stub_library []) fresh_service two_lines ''a.pdf'' None
     = (Inr two_lines_documents, ingested_service)
   \<and> vector_stores
        (snd (create_vector_store_from_text (stub_library []) ingested_service ''xy''
                ''a.pdf'' None))
       = [''a.pdf'' \<mapsto> xy_document ''a.pdf'']
   \<and> disk
        (snd (create_vector_store_from_text (stub_library []) ingested_service ''xy''
                ''a.pdf'' None))
       = [''uploads/vector_stores/a'' \<mapsto> Some (xy_document ''a.pdf'')]"
proof -
  have s: "stem ''a.pdf'' = stem ''a.pdf''" by simp
  have d: "vector_store_dir fresh_service = ''uploads/vector_stores''"
    by (simp add: fresh_service_def)
  have sv: "save_local (stub_library []) p vs = Inr (Some vs)" for p vs
    by (simp add: stub_library_def)
  have e: "vector_stores fresh_service = Map.empty" "disk fresh_service = Map.empty"
    by (simp_all add: fresh_service_def)
  show ?thesis
    using create_two_lines ingest_twice_same_stem [OF create_two_lines create_xy_pdf s]
    by (simp add: create_xy_pdf store_path_a_pdf [OF d] sv e)
qed

end
